theory Spec2Isabelle
  imports Main
begin

section \<open>Python text\<close>

text \<open>
  A Python \<^verbatim>\<open>str\<close> is a sequence of Unicode code points, and it is modelled as the list
  of these code points. \<open>ascii\<close> turns an ASCII literal into such a list; the emoji of the
  button labels are written as their code points.
\<close>

type_synonym pystr = "nat list"

definition ascii :: "string \<Rightarrow> pystr" where
  "ascii s = map of_char s"

definition NL :: nat where
  "NL = 10"

definition PIPE :: nat where
  "PIPE = 124"

text \<open>
  The code points that \<^verbatim>\<open>str.strip()\<close> takes for whitespace (those for which
  \<^verbatim>\<open>str.isspace\<close> holds).
\<close>

definition is_space :: "nat \<Rightarrow> bool" where
  "is_space c \<longleftrightarrow>
     (9 \<le> c \<and> c \<le> 13) \<or> (28 \<le> c \<and> c \<le> 32) \<or> c = 133 \<or> c = 160 \<or> c = 5760 \<or>
     (8192 \<le> c \<and> c \<le> 8202) \<or> c = 8232 \<or> c = 8233 \<or> c = 8239 \<or> c = 8287 \<or> c = 12288"

text \<open>\<^verbatim>\<open>s.strip()\<close>\<close>

definition strip :: "pystr \<Rightarrow> pystr" where
  "strip s = rev (dropWhile is_space (rev (dropWhile is_space s)))"

text \<open>
  \<^verbatim>\<open>s.lower()\<close>. The ASCII capitals go to their small letters. Two code points outside
  ASCII have a lower-case form that contains an ASCII letter: U+0130 (to \<open>i\<close> followed by
  U+0307) and U+212A, the Kelvin sign (to \<open>k\<close>). Every other code point outside ASCII is
  sent by Python to code points outside ASCII again; the model leaves it as it is, which
  gives the same answer whenever the result is compared with an ASCII literal, the only
  use the program makes of \<^verbatim>\<open>lower()\<close>.
\<close>

definition lower_cp :: "nat \<Rightarrow> pystr" where
  "lower_cp c =
     (if 65 \<le> c \<and> c \<le> 90 then [c + 32]
      else if c = 304 then [105, 775]
      else if c = 8490 then [107]
      else [c])"

definition py_lower :: "pystr \<Rightarrow> pystr" where
  "py_lower s = concat (map lower_cp s)"

text \<open>
  \<^verbatim>\<open>s.split(c)\<close> for a separator of one character: the pieces between the occurrences
  of \<open>c\<close>, so one piece more than there are occurrences, and \<^verbatim>\<open>['']\<close> for the empty
  string.
\<close>

fun split_on :: "nat \<Rightarrow> pystr \<Rightarrow> pystr list" where
  "split_on c [] = [[]]"
| "split_on c (x # xs) =
     (if x = c then [] # split_on c xs
      else (case split_on c xs of
              [] \<Rightarrow> [[x]]
            | p # ps \<Rightarrow> (x # p) # ps))"

text \<open>
  \<^verbatim>\<open>s.split(sep)\<close> for a separator of several characters: occurrences are found from
  the left and do not overlap.
\<close>

fun split_sep :: "pystr \<Rightarrow> pystr \<Rightarrow> pystr list" where
  "split_sep sep [] = [[]]"
| "split_sep sep (x # xs) =
     (if sep \<noteq> [] \<and> take (length sep) (x # xs) = sep
      then [] # split_sep sep (drop (length sep - 1) xs)
      else (case split_sep sep xs of
              [] \<Rightarrow> [[x]]
            | p # ps \<Rightarrow> (x # p) # ps))"

section \<open>Medication entries and the parser of \<^verbatim>\<open>confirm_prescription\<close>\<close>

text \<open>
  A medication is a dictionary with the four keys \<^verbatim>\<open>name\<close>, \<^verbatim>\<open>dosage\<close>,
  \<^verbatim>\<open>quantity\<close> and \<^verbatim>\<open>instructions\<close>.
\<close>

record medication =
  name :: pystr
  dosage :: pystr
  quantity :: pystr
  instructions :: pystr

text \<open>The list literal of lines 247 to 272: the H. pylori quadruple therapy.\<close>

definition h_pylori_medications :: "medication list" where
  "h_pylori_medications =
     [\<lparr>name = ascii ''Doxycycline 100mg'',
       dosage = ascii ''100mg'',
       quantity = ascii ''28 tablets'',
       instructions = ascii ''Take 1 tablet twice daily (morning and evening) after meals for 14 days''\<rparr>,
      \<lparr>name = ascii ''Metronidazole 500mg'',
       dosage = ascii ''500mg'',
       quantity = ascii ''42 tablets'',
       instructions = ascii ''Take 1 tablet three times daily (morning, lunch, evening) after meals for 14 days''\<rparr>,
      \<lparr>name = ascii ''Esomeprazole 40mg'',
       dosage = ascii ''40mg'',
       quantity = ascii ''28 tablets'',
       instructions = ascii ''Take 1 tablet twice daily (morning and evening) before meals for 14 days''\<rparr>,
      \<lparr>name = ascii ''Bismuth 525mg'',
       dosage = ascii ''525mg'',
       quantity = ascii ''56 tablets'',
       instructions = ascii ''Take 1 tablet four times daily (morning, lunch, evening, bedtime) with meals for 14 days''\<rparr>]"

text \<open>
  The body of the loop of lines 278 to 287, for one line: the entries it appends to
  \<^verbatim>\<open>medications\<close>.
\<close>

definition line_medications :: "pystr \<Rightarrow> medication list" where
  "line_medications line =
     (if PIPE \<in> set line then
        (let parts = map strip (split_on PIPE line) in
         if length parts = 4 then
           [\<lparr>name = parts ! 0, dosage = parts ! 1, quantity = parts ! 2,
             instructions = parts ! 3\<rparr>]
         else [])
      else [])"

text \<open>The loop itself, with the list \<^verbatim>\<open>medications\<close> as accumulator.\<close>

fun parse_lines :: "pystr list \<Rightarrow> medication list \<Rightarrow> medication list" where
  "parse_lines [] medications = medications"
| "parse_lines (line # lines) medications =
     parse_lines lines (medications @ line_medications line)"

text \<open>
  Lines 243 to 287 of \<^verbatim>\<open>confirm_prescription\<close>: the value of \<^verbatim>\<open>medications\<close>
  computed from the text of the message.
\<close>

definition parse_medications :: "pystr \<Rightarrow> medication list" where
  "parse_medications text =
     (if py_lower text = ascii ''h.pylori'' then h_pylori_medications
      else parse_lines (split_on NL (strip text)) [])"

text \<open>
  The parser in the words of the specification: the text is split into lines; a line of
  exactly four segments between pipes gives one entry, its fields the trimmed segments
  in order; any other line gives nothing.
\<close>

definition spec_line_entries :: "pystr \<Rightarrow> medication list" where
  "spec_line_entries line =
     (case split_on PIPE line of
        [a, b, c, d] \<Rightarrow>
          [\<lparr>name = strip a, dosage = strip b, quantity = strip c, instructions = strip d\<rparr>]
      | _ \<Rightarrow> [])"

definition spec_parse :: "pystr \<Rightarrow> medication list" where
  "spec_parse text = concat (map spec_line_entries (split_on NL text))"

section \<open>Numbers, dates and errors\<close>

text \<open>The exceptions that the handlers can raise.\<close>

datatype py_error = KeyError pystr | IndexError | ValueError | TypeError | OverflowError

text \<open>
  \<^verbatim>\<open>int(s)\<close> for a string. Python first turns every character from U+007F on into
  ASCII: a whitespace character into a blank, a decimal digit of any script into the
  digit \<^verbatim>\<open>0\<close> to \<^verbatim>\<open>9\<close> of its value, and any other character makes the string
  invalid. The characters below U+007F stay, and of these the number parser takes the
  blank and U+0009 to U+000D for whitespace. So the whitespace of \<^verbatim>\<open>int\<close> is that of
  \<^verbatim>\<open>strip\<close> without U+001C to U+001F.
\<close>

definition int_space :: "nat \<Rightarrow> bool" where
  "int_space c \<longleftrightarrow> is_space c \<and> \<not> (28 \<le> c \<and> c \<le> 31)"

text \<open>
  The decimal digits outside ASCII come in runs of ten, zero to nine; these are the code
  points of the zeros (Unicode 14, the table of Python 3.11).
\<close>

definition decimal_zeros :: "nat list" where
  "decimal_zeros =
     [1632, 1776, 1984, 2406, 2534, 2662, 2790, 2918, 3046, 3174, 3302, 3430, 3558, 3664,
      3792, 3872, 4160, 4240, 6112, 6160, 6470, 6608, 6784, 6800, 6992, 7088, 7232, 7248,
      42528, 43216, 43264, 43472, 43504, 43600, 44016, 65296, 66720, 68912, 69734, 69872,
      69942, 70096, 70384, 70736, 70864, 71248, 71360, 71472, 71904, 72016, 72784, 73040,
      73120, 92768, 92864, 93008, 120782, 120792, 120802, 120812, 120822, 123200, 123632,
      125264, 130032]"

definition decimal_value :: "nat \<Rightarrow> nat option" where
  "decimal_value c =
     (if 48 \<le> c \<and> c \<le> 57 then Some (c - 48)
      else map_option (\<lambda>z. c - z) (find (\<lambda>z. z \<le> c \<and> c < z + 10) decimal_zeros))"

text \<open>
  The digits of a number: one digit at least, and single underscores between digits.
  \<open>None\<close> when the string is not of this form.
\<close>

fun read_digits :: "pystr \<Rightarrow> nat list option" where
  "read_digits [] = None"
| "read_digits (c # cs) =
     (case decimal_value c of
        None \<Rightarrow> None
      | Some v \<Rightarrow>
          (case cs of
             [] \<Rightarrow> Some [v]
           | x # xs \<Rightarrow>
               if x = 95 then map_option ((#) v) (read_digits xs)
               else map_option ((#) v) (read_digits (x # xs))))"

text \<open>
  The value of the digits. A number of more than 4300 digits is refused
  (\<^verbatim>\<open>sys.int_info.default_max_str_digits\<close>, which the program does not change).
\<close>

definition unsigned_value :: "pystr \<Rightarrow> nat option" where
  "unsigned_value s =
     (case read_digits s of
        None \<Rightarrow> None
      | Some ds \<Rightarrow>
          if 4300 < length ds then None else Some (foldl (\<lambda>a d. 10 * a + d) 0 ds))"

text \<open>
  \<^verbatim>\<open>int(s)\<close>: surrounding whitespace is dropped and a sign may come first. \<open>None\<close>
  stands for \<^verbatim>\<open>ValueError\<close>.
\<close>

definition py_int :: "pystr \<Rightarrow> int option" where
  "py_int s =
     (case rev (dropWhile int_space (rev (dropWhile int_space s))) of
        [] \<Rightarrow> None
      | c # cs \<Rightarrow>
          if c = 45 then map_option (\<lambda>n. - int n) (unsigned_value cs)
          else if c = 43 then map_option int (unsigned_value cs)
          else map_option int (unsigned_value (c # cs)))"

text \<open>\<^verbatim>\<open>str(n)\<close> for a number, as the f-strings print it.\<close>

fun str_nat :: "nat \<Rightarrow> pystr" where
  "str_nat n = (if n < 10 then [48 + n] else str_nat (n div 10) @ [48 + n mod 10])"

declare str_nat.simps [simp del]

definition str_int :: "int \<Rightarrow> pystr" where
  "str_int i = (if i < 0 then 45 # str_nat (nat (- i)) else str_nat (nat i))"

definition zfill :: "nat \<Rightarrow> pystr \<Rightarrow> pystr" where
  "zfill w s = replicate (w - length s) 48 @ s"

text \<open>
  A \<^verbatim>\<open>date\<close> and a \<^verbatim>\<open>datetime\<close> of Python; the time of day plays a part only in
  the order of the rows of the store.
\<close>

record date =
  year :: nat
  month :: nat
  day :: nat

record datetime = date +
  hour :: nat
  minute :: nat
  second :: nat

text \<open>\<^verbatim>\<open>dt.date()\<close>\<close>

definition date_of :: "datetime \<Rightarrow> date" where
  "date_of dt = \<lparr>year = year dt, month = month dt, day = day dt\<rparr>"

text \<open>\<^verbatim>\<open>d.strftime("%d-%m-%Y")\<close>, for the years of four digits.\<close>

definition strftime_dmy :: "'a date_scheme \<Rightarrow> pystr" where
  "strftime_dmy d =
     zfill 2 (str_nat (day d)) @ [45] @ zfill 2 (str_nat (month d)) @ [45] @
     zfill 4 (str_nat (year d))"

text \<open>
  \<^verbatim>\<open>d.isoformat()\<close>: the text \<^verbatim>\<open>YYYY-MM-DD\<close> that \<^verbatim>\<open>sqlite3\<close> stores when a
  \<^verbatim>\<open>date\<close> is passed as a parameter of a statement.
\<close>

definition isoformat :: "date \<Rightarrow> pystr" where
  "isoformat d =
     zfill 4 (str_nat (year d)) @ [45] @ zfill 2 (str_nat (month d)) @ [45] @
     zfill 2 (str_nat (day d))"

text \<open>
  The order of two timestamps, as a number: SQLite compares their texts
  \<^verbatim>\<open>YYYY-MM-DD HH:MM:SS\<close>.
\<close>

definition timestamp_key :: "datetime \<Rightarrow> nat" where
  "timestamp_key t =
     ((((year t * 13 + month t) * 32 + day t) * 24 + hour t) * 60 + minute t) * 60 + second t"

text \<open>An integer that SQLite can store: 64 bits, signed. A larger one raises
  \<^verbatim>\<open>OverflowError\<close> when it is bound to a statement.\<close>

definition sqlite_int :: "int \<Rightarrow> bool" where
  "sqlite_int i \<longleftrightarrow> - (2 ^ 63) \<le> i \<and> i < 2 ^ 63"

section \<open>The store, the session context and the messages\<close>

text \<open>
  The two tables of \<^verbatim>\<open>init_database\<close>. The column \<^verbatim>\<open>medications\<close> holds the JSON
  text of the list of medications; the model keeps the list that this text encodes. The
  two date columns hold the text that \<^verbatim>\<open>sqlite3\<close> made of the \<^verbatim>\<open>date\<close>, and this
  text is what a query returns.
\<close>

record patient_row =
  p_id :: int
  p_name :: pystr
  p_age :: int
  p_phone :: pystr
  p_telegram_user_id :: int
  p_created_at :: datetime

record prescription_row =
  rx_id :: int
  rx_patient_id :: int
  rx_diagnosis :: pystr
  rx_admission_date :: pystr
  rx_discharge_date :: pystr
  rx_medications :: "medication list"
  rx_created_at :: datetime

record db =
  patients :: "patient_row list"
  prescriptions :: "prescription_row list"

text \<open>\<^verbatim>\<open>cursor.lastrowid\<close> after an insertion into a table with these identifiers.\<close>

definition lastrowid :: "int list \<Rightarrow> int" where
  "lastrowid ids = foldr max ids 0 + 1"

text \<open>
  \<^verbatim>\<open>context.user_data\<close>, the dictionary of one operator: a key that is absent is
  \<open>None\<close>.
\<close>

record user_data =
  patient_name_key :: "pystr option"
  patient_age_key :: "int option"
  patient_phone_key :: "pystr option"
  current_patient_id :: "int option"
  selected_patient_id :: "int option"
  diagnosis :: "pystr option"
  medications :: "medication list option"

definition empty_user_data :: user_data where
  "empty_user_data =
     \<lparr>patient_name_key = None, patient_age_key = None, patient_phone_key = None,
      current_patient_id = None, selected_patient_id = None, diagnosis = None,
      medications = None\<rparr>"

text \<open>
  An update: the text of the message, the name, in lower case, of the bot command with
  which the message begins when Telegram marks one (\<^verbatim>\<open>/cancel\<close> gives
  \<open>Some cancel\<close>), and the identifier of the operator.
\<close>

record update =
  message_text :: pystr
  bot_command :: "pystr option"
  effective_user_id :: int

text \<open>What a handler reads of the world: \<^verbatim>\<open>datetime.now()\<close> and the
  \<^verbatim>\<open>CURRENT_TIMESTAMP\<close> of SQLite.\<close>

record env =
  now :: datetime
  current_timestamp :: datetime

text \<open>The six states of the conversation (line 15) and what a handler returns.\<close>

datatype conv_state =
  PATIENT_NAME | PATIENT_AGE | PATIENT_PHONE | PATIENT_DIAGNOSIS | PRESCRIPTION_INPUT
  | CONFIRM_PRESCRIPTION

datatype step = To conv_state | END | NoValue

text \<open>
  The messages sent to the operator. The wording and the keyboards are presentation;
  a message is kept as a tag together with the data that it shows.
\<close>

datatype reply =
    Welcome
  | AskName
  | AskAge pystr
  | AskPhone int
  | InvalidAge
  | PatientAdded pystr int pystr int
  | NoPatientsAddFirst
  | SelectPatient "pystr list"
  | AskDiagnosis
  | SelectFromList
  | PrescriptionTemplate
  | InvalidPrescriptionFormat
  | PrescriptionPreview pystr int pystr pystr "medication list"
  | PrescriptionSaved int pystr
  | EnterCorrected
  | Cancelled
  | NoPatients
  | PatientList "(pystr \<times> int \<times> int \<times> pystr \<times> pystr) list"
  | NoPrescriptions
  | PrescriptionList "(int \<times> pystr \<times> pystr \<times> pystr \<times> nat) list"
  | SearchPrompt
  | NoSearchMatch pystr
  | SearchResults pystr "(pystr \<times> int \<times> int \<times> pystr) list"
  | Statistics nat nat nat

text \<open>
  The outcome of one call of a handler: the value returned or the exception raised, the
  messages sent, and the context and the store as the call leaves them. An exception
  does not undo what the handler wrote before it.
\<close>

record result =
  ret :: "py_error + step"
  replies :: "reply list"
  data :: user_data
  store :: db

definition returns :: "step \<Rightarrow> reply list \<Rightarrow> user_data \<Rightarrow> db \<Rightarrow> result" where
  "returns s rs ctx d = \<lparr>ret = Inr s, replies = rs, data = ctx, store = d\<rparr>"

definition raises :: "py_error \<Rightarrow> reply list \<Rightarrow> user_data \<Rightarrow> db \<Rightarrow> result" where
  "raises e rs ctx d = \<lparr>ret = Inl e, replies = rs, data = ctx, store = d\<rparr>"

text \<open>The labels of the buttons that the handlers compare the text with.\<close>

definition ADD_NEW_PATIENT :: pystr where
  "ADD_NEW_PATIENT = 128100 # ascii '' Add New Patient''"

definition VIEW_PATIENTS :: pystr where
  "VIEW_PATIENTS = 128203 # ascii '' View Patients''"

definition CREATE_PRESCRIPTION :: pystr where
  "CREATE_PRESCRIPTION = 128138 # ascii '' Create Prescription''"

definition VIEW_PRESCRIPTIONS :: pystr where
  "VIEW_PRESCRIPTIONS = 128202 # ascii '' View Prescriptions''"

definition SEARCH_PATIENT :: pystr where
  "SEARCH_PATIENT = 128269 # ascii '' Search Patient''"

definition STATISTICS :: pystr where
  "STATISTICS = 128200 # ascii '' Statistics''"

definition MAIN_MENU :: pystr where
  "MAIN_MENU = 127968 # ascii '' Main Menu''"

definition CANCEL_SELECTION :: pystr where
  "CANCEL_SELECTION = 128683 # ascii '' Cancel''"

definition CONFIRM_AND_SAVE :: pystr where
  "CONFIRM_AND_SAVE = 9989 # ascii '' Confirm & Save''"

definition CANCEL_PRESCRIPTION :: pystr where
  "CANCEL_PRESCRIPTION = 10060 # ascii '' Cancel''"

definition EDIT :: pystr where
  "EDIT = 9999 # 65039 # ascii '' Edit''"

section \<open>The queries\<close>

text \<open>
  \<^verbatim>\<open>ORDER BY created_at DESC\<close>: the later timestamp first, and rows with the same
  timestamp in the order of their insertion, as SQLite returns them.
\<close>

definition newest_first :: "('a \<Rightarrow> datetime) \<Rightarrow> 'a list \<Rightarrow> 'a list" where
  "newest_first created rows = sort_key (\<lambda>r. - int (timestamp_key (created r))) rows"

text \<open>\<^verbatim>\<open>FROM patients WHERE telegram_user_id = ?\<close>\<close>

definition patients_of :: "int \<Rightarrow> db \<Rightarrow> patient_row list" where
  "patients_of uid d = filter (\<lambda>p. p_telegram_user_id p = uid) (patients d)"

text \<open>
  \<^verbatim>\<open>FROM prescriptions p JOIN patients pt ON p.patient_id = pt.id
  WHERE pt.telegram_user_id = ?\<close>
\<close>

definition prescriptions_of :: "int \<Rightarrow> db \<Rightarrow> (prescription_row \<times> patient_row) list" where
  "prescriptions_of uid d =
     concat (map (\<lambda>rx. map (\<lambda>pt. (rx, pt))
                    (filter (\<lambda>pt. p_id pt = rx_patient_id rx \<and> p_telegram_user_id pt = uid)
                       (patients d)))
               (prescriptions d))"

text \<open>
  The operator \<^verbatim>\<open>LIKE\<close> of SQLite: \<^verbatim>\<open>%\<close> stands for any run of characters,
  \<^verbatim>\<open>_\<close> for one character, and the ASCII letters match without regard to case.
\<close>

definition ascii_fold :: "nat \<Rightarrow> nat" where
  "ascii_fold c = (if 65 \<le> c \<and> c \<le> 90 then c + 32 else c)"

fun like :: "pystr \<Rightarrow> pystr \<Rightarrow> bool" where
  "like [] t = (t = [])"
| "like (p # ps) [] = (p = 37 \<and> like ps [])"
| "like (p # ps) (c # cs) =
     (if p = 37 then like ps (c # cs) \<or> like (p # ps) cs
      else (p = 95 \<or> ascii_fold p = ascii_fold c) \<and> like ps cs)"

section \<open>The handlers of \<^verbatim>\<open>MedicalBot\<close>\<close>

definition start :: "env \<Rightarrow> update \<Rightarrow> user_data \<Rightarrow> db \<Rightarrow> result" where
  "start e u ctx d = returns NoValue [Welcome] ctx d"

definition add_patient_start :: "env \<Rightarrow> update \<Rightarrow> user_data \<Rightarrow> db \<Rightarrow> result" where
  "add_patient_start e u ctx d = returns (To PATIENT_NAME) [AskName] ctx d"

definition patient_name :: "env \<Rightarrow> update \<Rightarrow> user_data \<Rightarrow> db \<Rightarrow> result" where
  "patient_name e u ctx d =
     returns (To PATIENT_AGE) [AskAge (message_text u)]
       (ctx\<lparr>patient_name_key := Some (message_text u)\<rparr>) d"

definition patient_age :: "env \<Rightarrow> update \<Rightarrow> user_data \<Rightarrow> db \<Rightarrow> result" where
  "patient_age e u ctx d =
     (case py_int (message_text u) of
        Some age \<Rightarrow>
          returns (To PATIENT_PHONE) [AskPhone age] (ctx\<lparr>patient_age_key := Some age\<rparr>) d
      | None \<Rightarrow> returns (To PATIENT_AGE) [InvalidAge] ctx d)"

definition patient_phone :: "env \<Rightarrow> update \<Rightarrow> user_data \<Rightarrow> db \<Rightarrow> result" where
  "patient_phone e u ctx d =
     (let ctx1 = ctx\<lparr>patient_phone_key := Some (message_text u)\<rparr> in
      case patient_name_key ctx1 of
        None \<Rightarrow> raises (KeyError (ascii ''patient_name'')) [] ctx1 d
      | Some nm \<Rightarrow>
          (case patient_age_key ctx1 of
             None \<Rightarrow> raises (KeyError (ascii ''patient_age'')) [] ctx1 d
           | Some age \<Rightarrow>
               if \<not> sqlite_int age then raises OverflowError [] ctx1 d
               else
                 let patient_id = lastrowid (map p_id (patients d));
                     d1 = d\<lparr>patients := patients d @
                            [\<lparr>p_id = patient_id, p_name = nm, p_age = age,
                              p_phone = message_text u,
                              p_telegram_user_id = effective_user_id u,
                              p_created_at = current_timestamp e\<rparr>]\<rparr>;
                     ctx2 = ctx1\<lparr>current_patient_id := Some patient_id\<rparr>
                 in returns END [PatientAdded nm age (message_text u) patient_id] ctx2 d1))"

text \<open>The label of a patient on the keyboard (line 176).\<close>

definition patient_label :: "patient_row \<Rightarrow> pystr" where
  "patient_label p =
     p_name p @ ascii '' (Age: '' @ str_int (p_age p) @ ascii '') - ID: '' @ str_int (p_id p)"

definition create_prescription_start :: "env \<Rightarrow> update \<Rightarrow> user_data \<Rightarrow> db \<Rightarrow> result" where
  "create_prescription_start e u ctx d =
     (let found = take 10 (newest_first p_created_at (patients_of (effective_user_id u) d)) in
      if found = [] then returns END [NoPatientsAddFirst] ctx d
      else
        returns (To PATIENT_DIAGNOSIS)
          [SelectPatient (map patient_label found @ [CANCEL_SELECTION])] ctx d)"

definition cancel :: "env \<Rightarrow> update \<Rightarrow> user_data \<Rightarrow> db \<Rightarrow> result" where
  "cancel e u ctx d = returns END [Cancelled] ctx d"

text \<open>
  \<^verbatim>\<open>patient_text.split('ID: ')[1]\<close> raises \<^verbatim>\<open>IndexError\<close> when the split has one
  piece only, and \<^verbatim>\<open>int\<close> raises \<^verbatim>\<open>ValueError\<close>; the handler catches both.
\<close>

definition patient_diagnosis :: "env \<Rightarrow> update \<Rightarrow> user_data \<Rightarrow> db \<Rightarrow> result" where
  "patient_diagnosis e u ctx d =
     (if message_text u = CANCEL_SELECTION then cancel e u ctx d
      else
        (case split_sep (ascii ''ID: '') (message_text u) of
           _ # piece # _ \<Rightarrow>
             (case py_int piece of
                Some patient_id \<Rightarrow>
                  returns (To PRESCRIPTION_INPUT) [AskDiagnosis]
                    (ctx\<lparr>selected_patient_id := Some patient_id\<rparr>) d
              | None \<Rightarrow> returns (To PATIENT_DIAGNOSIS) [SelectFromList] ctx d)
         | _ \<Rightarrow> returns (To PATIENT_DIAGNOSIS) [SelectFromList] ctx d))"

definition prescription_input :: "env \<Rightarrow> update \<Rightarrow> user_data \<Rightarrow> db \<Rightarrow> result" where
  "prescription_input e u ctx d =
     returns (To CONFIRM_PRESCRIPTION) [PrescriptionTemplate]
       (ctx\<lparr>diagnosis := Some (message_text u)\<rparr>) d"

text \<open>
  \<^verbatim>\<open>confirm_prescription\<close>: the list is stored in the context before the preview is
  built. Building the preview reads the selected patient from the context and from the
  store (\<^verbatim>\<open>patient[0]\<close> raises \<^verbatim>\<open>TypeError\<close> when no row was found), then the
  diagnosis.
\<close>

definition confirm_prescription :: "env \<Rightarrow> update \<Rightarrow> user_data \<Rightarrow> db \<Rightarrow> result" where
  "confirm_prescription e u ctx d =
     (let meds = parse_medications (message_text u) in
      if meds = [] then returns (To CONFIRM_PRESCRIPTION) [InvalidPrescriptionFormat] ctx d
      else
        let ctx1 = ctx\<lparr>medications := Some meds\<rparr>;
            today = strftime_dmy (now e)
        in
          (case selected_patient_id ctx1 of
             None \<Rightarrow> raises (KeyError (ascii ''selected_patient_id'')) [] ctx1 d
           | Some pid \<Rightarrow>
               if \<not> sqlite_int pid then raises OverflowError [] ctx1 d
               else
                 (case filter (\<lambda>p. p_id p = pid) (patients d) of
                    [] \<Rightarrow> raises TypeError [] ctx1 d
                  | patient # _ \<Rightarrow>
                      (case diagnosis ctx1 of
                         None \<Rightarrow> raises (KeyError (ascii ''diagnosis'')) [] ctx1 d
                       | Some dg \<Rightarrow>
                           returns (To CONFIRM_PRESCRIPTION)
                             [PrescriptionPreview (p_name patient) (p_age patient) dg today meds]
                             ctx1 d))))"

text \<open>
  \<^verbatim>\<open>save_prescription\<close>: the three keys are read from the context before the
  \<^verbatim>\<open>INSERT\<close> is executed, so a missing key leaves the store as it was.
\<close>

definition save_prescription :: "env \<Rightarrow> update \<Rightarrow> user_data \<Rightarrow> db \<Rightarrow> result" where
  "save_prescription e u ctx d =
     (if message_text u = CONFIRM_AND_SAVE then
        (let today = date_of (now e) in
         case medications ctx of
           None \<Rightarrow> raises (KeyError (ascii ''medications'')) [] ctx d
         | Some meds \<Rightarrow>
             (case selected_patient_id ctx of
                None \<Rightarrow> raises (KeyError (ascii ''selected_patient_id'')) [] ctx d
              | Some pid \<Rightarrow>
                  (case diagnosis ctx of
                     None \<Rightarrow> raises (KeyError (ascii ''diagnosis'')) [] ctx d
                   | Some dg \<Rightarrow>
                       if \<not> sqlite_int pid then raises OverflowError [] ctx d
                       else
                         let prescription_id = lastrowid (map rx_id (prescriptions d));
                             d1 = d\<lparr>prescriptions := prescriptions d @
                                    [\<lparr>rx_id = prescription_id, rx_patient_id = pid,
                                      rx_diagnosis = dg,
                                      rx_admission_date = isoformat today,
                                      rx_discharge_date = isoformat today,
                                      rx_medications = meds,
                                      rx_created_at = current_timestamp e\<rparr>]\<rparr>
                         in returns END
                              [PrescriptionSaved prescription_id (strftime_dmy today)] ctx d1)))
      else if message_text u = EDIT then
        returns (To CONFIRM_PRESCRIPTION) [EnterCorrected] ctx d
      else cancel e u ctx d)"

definition view_patients :: "env \<Rightarrow> update \<Rightarrow> user_data \<Rightarrow> db \<Rightarrow> result" where
  "view_patients e u ctx d =
     (let found = take 20 (newest_first p_created_at (patients_of (effective_user_id u) d)) in
      if found = [] then returns NoValue [NoPatients] ctx d
      else
        returns NoValue
          [PatientList
             (map (\<lambda>p. (p_name p, p_id p, p_age p, p_phone p, strftime_dmy (p_created_at p)))
                found)] ctx d)"

text \<open>
  \<^verbatim>\<open>view_prescriptions\<close> prints the column \<^verbatim>\<open>admission_date\<close> as the query returns
  it (line 456).
\<close>

definition view_prescriptions :: "env \<Rightarrow> update \<Rightarrow> user_data \<Rightarrow> db \<Rightarrow> result" where
  "view_prescriptions e u ctx d =
     (let found = take 10 (newest_first (\<lambda>r. rx_created_at (fst r))
                             (prescriptions_of (effective_user_id u) d)) in
      if found = [] then returns NoValue [NoPrescriptions] ctx d
      else
        returns NoValue
          [PrescriptionList
             (map (\<lambda>(rx, pt). (rx_id rx, p_name pt, rx_diagnosis rx, rx_admission_date rx,
                               length (rx_medications rx)))
                found)] ctx d)"

definition search_patient :: "env \<Rightarrow> update \<Rightarrow> user_data \<Rightarrow> db \<Rightarrow> result" where
  "search_patient e u ctx d = returns NoValue [SearchPrompt] ctx d"

definition handle_search :: "env \<Rightarrow> update \<Rightarrow> user_data \<Rightarrow> db \<Rightarrow> result" where
  "handle_search e u ctx d =
     (let search_term = strip (message_text u);
          pattern = 37 # search_term @ [37];
          results = filter (\<lambda>p. (like pattern (p_name p) \<or> like pattern (p_phone p)) \<and>
                                 p_telegram_user_id p = effective_user_id u) (patients d)
      in
        if results = [] then returns NoValue [NoSearchMatch search_term] ctx d
        else
          returns NoValue
            [SearchResults search_term
               (map (\<lambda>p. (p_name p, p_id p, p_age p, p_phone p)) results)] ctx d)"

definition statistics :: "env \<Rightarrow> update \<Rightarrow> user_data \<Rightarrow> db \<Rightarrow> result" where
  "statistics e u ctx d =
     (let patient_count = length (patients_of (effective_user_id u) d);
          prescription_count = length (prescriptions_of (effective_user_id u) d);
          today = date_of (now e);
          today_prescriptions =
            length (filter (\<lambda>r. isoformat (date_of (rx_created_at (fst r))) = isoformat today)
                      (prescriptions_of (effective_user_id u) d))
      in returns NoValue [Statistics patient_count prescription_count today_prescriptions] ctx d)"

definition button_handler :: "env \<Rightarrow> update \<Rightarrow> user_data \<Rightarrow> db \<Rightarrow> result" where
  "button_handler e u ctx d =
     (if message_text u = ADD_NEW_PATIENT then add_patient_start e u ctx d
      else if message_text u = VIEW_PATIENTS then view_patients e u ctx d
      else if message_text u = CREATE_PRESCRIPTION then create_prescription_start e u ctx d
      else if message_text u = VIEW_PRESCRIPTIONS then view_prescriptions e u ctx d
      else if message_text u = SEARCH_PATIENT then search_patient e u ctx d
      else if message_text u = STATISTICS then statistics e u ctx d
      else if message_text u = MAIN_MENU then start e u ctx d
      else returns NoValue [] ctx d)"

section \<open>The dispatch of \<^verbatim>\<open>run\<close>\<close>

text \<open>
  \<^verbatim>\<open>filters.Regex(r'^label$')\<close> searches the text of the message: the pattern matches
  the label itself, and the label followed by one line break.
\<close>

definition regex_label :: "pystr \<Rightarrow> pystr \<Rightarrow> bool" where
  "regex_label label t \<longleftrightarrow> t = label \<or> t = label @ [NL]"

text \<open>
  The state of the conversation of one operator after a handler has run: a handler that
  returns a state moves there, \<^verbatim>\<open>ConversationHandler.END\<close> ends the conversation, and a
  handler that returns nothing or raises leaves the state as it was. \<open>None\<close> is the
  operator outside any conversation.
\<close>

definition next_state :: "conv_state option \<Rightarrow> result \<Rightarrow> conv_state option" where
  "next_state st r =
     (case ret r of
        Inr (To s) \<Rightarrow> Some s
      | Inr END \<Rightarrow> None
      | Inr NoValue \<Rightarrow> st
      | Inl err \<Rightarrow> st)"

text \<open>The table \<^verbatim>\<open>states\<close> of the conversation handler (lines 586 to 593).\<close>

fun state_handler :: "conv_state \<Rightarrow> env \<Rightarrow> update \<Rightarrow> user_data \<Rightarrow> db \<Rightarrow> result" where
  "state_handler PATIENT_NAME = patient_name"
| "state_handler PATIENT_AGE = patient_age"
| "state_handler PATIENT_PHONE = patient_phone"
| "state_handler PATIENT_DIAGNOSIS = patient_diagnosis"
| "state_handler PRESCRIPTION_INPUT = prescription_input"
| "state_handler CONFIRM_PRESCRIPTION = save_prescription"

text \<open>
  The conversation handler: the entry points when no conversation is going on, else the
  handler of the state for a text that is no command, else the fallback \<^verbatim>\<open>/cancel\<close>.
  \<open>None\<close> when the handler does not take the update.
\<close>

definition conv_handler ::
  "env \<Rightarrow> update \<Rightarrow> conv_state option \<Rightarrow> user_data \<Rightarrow> db \<Rightarrow> result option" where
  "conv_handler e u st ctx d =
     (case st of
        None \<Rightarrow>
          if regex_label ADD_NEW_PATIENT (message_text u)
          then Some (add_patient_start e u ctx d)
          else if regex_label CREATE_PRESCRIPTION (message_text u)
          then Some (create_prescription_start e u ctx d)
          else None
      | Some s \<Rightarrow>
          if bot_command u = None then Some (state_handler s e u ctx d)
          else if bot_command u = Some (ascii ''cancel'') then Some (cancel e u ctx d)
          else None)"

text \<open>
  One update of one operator through the three handlers that \<^verbatim>\<open>run\<close> registers, in
  their order: the command \<^verbatim>\<open>/start\<close>, the conversation handler, and
  \<^verbatim>\<open>button_handler\<close> for a text that is no command. An update that none of them takes
  changes nothing. What \<^verbatim>\<open>button_handler\<close> returns is not a state of the
  conversation.
\<close>

definition ignored :: "user_data \<Rightarrow> db \<Rightarrow> result" where
  "ignored ctx d = returns NoValue [] ctx d"

definition dispatch ::
  "env \<Rightarrow> update \<Rightarrow> conv_state option \<Rightarrow> user_data \<Rightarrow> db \<Rightarrow> conv_state option \<times> result" where
  "dispatch e u st ctx d =
     (if bot_command u = Some (ascii ''start'') then (st, start e u ctx d)
      else
        (case conv_handler e u st ctx d of
           Some r \<Rightarrow> (next_state st r, r)
         | None \<Rightarrow>
             if bot_command u = None then (st, button_handler e u ctx d)
             else (st, ignored ctx d)))"

text \<open>A sequence of updates of one operator, each with the world it arrives in.\<close>

fun run :: "(env \<times> update) list \<Rightarrow> conv_state option \<Rightarrow> user_data \<Rightarrow> db
    \<Rightarrow> conv_state option \<times> user_data \<times> db" where
  "run [] st ctx d = (st, ctx, d)"
| "run ((e, u) # turns) st ctx d =
     (let (st1, r) = dispatch e u st ctx d in run turns st1 (data r) (store r))"

text \<open>
  The handlers by name, and a sequence of calls of handlers in any order: every method
  of \<^verbatim>\<open>MedicalBot\<close> that takes an update, whether \<^verbatim>\<open>run\<close> registers it or not.
\<close>

datatype handler =
    Start | AddPatientStart | PatientName | PatientAge | PatientPhone
  | CreatePrescriptionStart | PatientDiagnosis | PrescriptionInput | ConfirmPrescription
  | SavePrescription | ViewPatients | ViewPrescriptions | SearchPatient | HandleSearch
  | StatisticsHandler | Cancel | ButtonHandler

fun call :: "handler \<Rightarrow> env \<Rightarrow> update \<Rightarrow> user_data \<Rightarrow> db \<Rightarrow> result" where
  "call Start = start"
| "call AddPatientStart = add_patient_start"
| "call PatientName = patient_name"
| "call PatientAge = patient_age"
| "call PatientPhone = patient_phone"
| "call CreatePrescriptionStart = create_prescription_start"
| "call PatientDiagnosis = patient_diagnosis"
| "call PrescriptionInput = prescription_input"
| "call ConfirmPrescription = confirm_prescription"
| "call SavePrescription = save_prescription"
| "call ViewPatients = view_patients"
| "call ViewPrescriptions = view_prescriptions"
| "call SearchPatient = search_patient"
| "call HandleSearch = handle_search"
| "call StatisticsHandler = statistics"
| "call Cancel = cancel"
| "call ButtonHandler = button_handler"

fun calls :: "(handler \<times> env \<times> update) list \<Rightarrow> user_data \<Rightarrow> db \<Rightarrow> user_data \<times> db" where
  "calls [] ctx d = (ctx, d)"
| "calls ((h, e, u) # rest) ctx d =
     (let r = call h e u ctx d in calls rest (data r) (store r))"

section \<open>Notions of the specification and example data\<close>

text \<open>\<open>contains sep s\<close>: the string \<open>sep\<close> occurs in \<open>s\<close>.\<close>

fun contains :: "pystr \<Rightarrow> pystr \<Rightarrow> bool" where
  "contains sep [] = (sep = [])"
| "contains sep (x # xs) = (take (length sep) (x # xs) = sep \<or> contains sep xs)"

text \<open>The marker that \<^verbatim>\<open>patient_diagnosis\<close> looks for.\<close>

definition ID_MARKER :: pystr where
  "ID_MARKER = ascii ''ID: ''"

text \<open>
  The invariant of the medication list: the key \<^verbatim>\<open>medications\<close> of the context is
  absent or holds a list with an entry, and so does every row of a list of
  prescriptions.
\<close>

definition medications_nonempty :: "user_data \<Rightarrow> bool" where
  "medications_nonempty ctx \<longleftrightarrow> medications ctx \<noteq> Some []"

definition rows_nonempty :: "prescription_row list \<Rightarrow> bool" where
  "rows_nonempty rows \<longleftrightarrow> list_all (\<lambda>r. rx_medications r \<noteq> []) rows"

text \<open>
  An operator with identifier 1 on 3 November 2026, a store with one patient of this
  operator, a text message and a command of this operator.
\<close>

definition example_env :: env where
  "example_env =
     \<lparr>now = \<lparr>year = 2026, month = 11, day = 3, hour = 9, minute = 30, second = 0\<rparr>,
      current_timestamp =
        \<lparr>year = 2026, month = 11, day = 3, hour = 2, minute = 30, second = 0\<rparr>\<rparr>"

definition example_db :: db where
  "example_db =
     \<lparr>patients =
        [\<lparr>p_id = 1, p_name = ascii ''Jane Doe'', p_age = 40, p_phone = ascii ''555-1234'',
          p_telegram_user_id = 1,
          p_created_at =
            \<lparr>year = 2026, month = 11, day = 2, hour = 8, minute = 0, second = 0\<rparr>\<rparr>],
      prescriptions = []\<rparr>"

text \<open>A store whose one patient has the marker in the name.\<close>

definition marker_name_db :: db where
  "marker_name_db =
     \<lparr>patients =
        [\<lparr>p_id = 12, p_name = ascii ''ID: 5'', p_age = 3, p_phone = ascii ''555-0000'',
          p_telegram_user_id = 1,
          p_created_at =
            \<lparr>year = 2026, month = 11, day = 2, hour = 8, minute = 0, second = 0\<rparr>\<rparr>],
      prescriptions = []\<rparr>"

definition text_update :: "pystr \<Rightarrow> update" where
  "text_update t = \<lparr>message_text = t, bot_command = None, effective_user_id = 1\<rparr>"

definition command_update :: "pystr \<Rightarrow> update" where
  "command_update c = \<lparr>message_text = 47 # c, bot_command = Some c, effective_user_id = 1\<rparr>"

section \<open>Splitting and trimming\<close>

lemma split_on_not_Nil: "split_on c s \<noteq> []"
  by (induction s) (auto split: list.splits)

lemma split_on_notin: "c \<notin> set s \<Longrightarrow> split_on c s = [s]"
  by (induction s) auto

lemma length_split_on_in: "c \<in> set s \<Longrightarrow> 2 \<le> length (split_on c s)"
proof (induction s)
  case Nil then show ?case by simp
next
  case (Cons x xs)
  show ?case
  proof (cases "x = c")
    case True
    then show ?thesis using split_on_not_Nil [of c xs] by (cases "split_on c xs") auto
  next
    case False
    with Cons show ?thesis by (auto split: list.splits)
  qed
qed

lemma split_on_Cons_other:
  "x \<noteq> c \<Longrightarrow> split_on c (x # xs) = (x # hd (split_on c xs)) # tl (split_on c xs)"
  using split_on_not_Nil [of c xs] by (cases "split_on c xs") auto

lemma split_on_snoc:
  "split_on c (s @ [x]) =
     (if x = c then split_on c s @ [[]]
      else butlast (split_on c s) @ [last (split_on c s) @ [x]])"
proof (induction s)
  case Nil show ?case by simp
next
  case (Cons y ys)
  obtain p ps where ps: "split_on c ys = p # ps"
    using split_on_not_Nil [of c ys] by (cases "split_on c ys") auto
  show ?case
  proof (cases "x = c")
    case True
    with Cons ps show ?thesis by (auto split: list.splits)
  next
    case False
    with Cons ps show ?thesis
      by (cases ps) (auto split: list.splits simp: split_on_not_Nil)
  qed
qed

lemma parse_lines_concat: "parse_lines ls acc = acc @ concat (map line_medications ls)"
  by (induction ls arbitrary: acc) auto

lemma line_medications_spec: "line_medications l = spec_line_entries l"
proof (cases "PIPE \<in> set l")
  case False
  then show ?thesis
    by (simp add: line_medications_def spec_line_entries_def split_on_notin)
next
  case True
  then show ?thesis
    by (auto simp: line_medications_def spec_line_entries_def Let_def
        split: list.splits)
qed

lemma not_space_PIPE: "\<not> is_space PIPE"
  by (simp add: is_space_def PIPE_def)

lemma strip_Cons_space: "is_space w \<Longrightarrow> strip (w # s) = strip s"
  by (simp add: strip_def)

lemma strip_snoc_space: "is_space w \<Longrightarrow> strip (s @ [w]) = strip s"
proof -
  assume w: "is_space w"
  show ?thesis
  proof (cases "\<forall>x\<in>set s. is_space x")
    case True
    then have d: "dropWhile is_space s = []" "dropWhile is_space (s @ [w]) = []"
      using w by (simp_all only: dropWhile_eq_Nil_conv set_append, auto)
    show ?thesis by (simp add: strip_def d)
  next
    case False
    then have "dropWhile is_space (s @ [w]) = dropWhile is_space s @ [w]"
      by (auto simp: dropWhile_append)
    then show ?thesis using w by (simp add: strip_def)
  qed
qed

lemma segs_Cons_space:
  assumes "is_space w"
  shows "map strip (split_on PIPE (w # l)) = map strip (split_on PIPE l)"
proof -
  have "w \<noteq> PIPE" using assms not_space_PIPE by auto
  moreover obtain p ps where "split_on PIPE l = p # ps"
    using split_on_not_Nil [of PIPE l] by (cases "split_on PIPE l") auto
  ultimately show ?thesis using assms by (simp add: strip_Cons_space)
qed

lemma segs_snoc_space:
  assumes "is_space w"
  shows "map strip (split_on PIPE (l @ [w])) = map strip (split_on PIPE l)"
proof -
  have ne: "w \<noteq> PIPE" using assms not_space_PIPE by auto
  have nn: "split_on PIPE l \<noteq> []" by (rule split_on_not_Nil)
  have "map strip (butlast (split_on PIPE l) @ [last (split_on PIPE l) @ [w]])
        = map strip (butlast (split_on PIPE l) @ [last (split_on PIPE l)])"
    using assms by (simp add: strip_snoc_space)
  also have "\<dots> = map strip (split_on PIPE l)"
    using nn by simp
  finally show ?thesis using ne by (simp add: split_on_snoc)
qed

lemma spec_line_entries_segs:
  "spec_line_entries l =
     (case map strip (split_on PIPE l) of
        [a, b, c, d] \<Rightarrow> [\<lparr>name = a, dosage = b, quantity = c, instructions = d\<rparr>]
      | _ \<Rightarrow> [])"
  by (simp add: spec_line_entries_def split: list.splits)

lemma spec_line_entries_Cons_space:
  "is_space w \<Longrightarrow> spec_line_entries (w # l) = spec_line_entries l"
  by (simp only: spec_line_entries_segs segs_Cons_space)

lemma spec_line_entries_snoc_space:
  "is_space w \<Longrightarrow> spec_line_entries (l @ [w]) = spec_line_entries l"
  by (simp only: spec_line_entries_segs segs_snoc_space)

lemma spec_line_entries_Nil: "spec_line_entries [] = []"
  by (simp add: spec_line_entries_def)

lemma spec_parse_Cons_space:
  assumes "is_space w"
  shows "spec_parse (w # s) = spec_parse s"
proof (cases "w = NL")
  case True
  then show ?thesis by (simp add: spec_parse_def spec_line_entries_Nil)
next
  case False
  obtain p ps where "split_on NL s = p # ps"
    using split_on_not_Nil [of NL s] by (cases "split_on NL s") auto
  with False assms show ?thesis
    by (simp add: spec_parse_def spec_line_entries_Cons_space)
qed

lemma spec_parse_snoc_space:
  assumes "is_space w"
  shows "spec_parse (s @ [w]) = spec_parse s"
proof (cases "w = NL")
  case True
  then show ?thesis by (simp add: spec_parse_def split_on_snoc spec_line_entries_Nil)
next
  case False
  have nn: "split_on NL s \<noteq> []" by (rule split_on_not_Nil)
  have "concat (map spec_line_entries (butlast (split_on NL s) @ [last (split_on NL s) @ [w]]))
        = concat (map spec_line_entries (butlast (split_on NL s) @ [last (split_on NL s)]))"
    using assms by (simp add: spec_line_entries_snoc_space)
  also have "\<dots> = concat (map spec_line_entries (split_on NL s))"
    using nn by simp
  finally show ?thesis using False by (simp add: spec_parse_def split_on_snoc)
qed

lemma spec_parse_dropWhile: "spec_parse (dropWhile is_space s) = spec_parse s"
  by (induction s) (simp_all add: spec_parse_Cons_space)

lemma spec_parse_drop_trailing:
  "spec_parse (rev (dropWhile is_space (rev s))) = spec_parse s"
  by (induction s rule: rev_induct) (simp_all add: spec_parse_snoc_space)

lemma spec_parse_strip: "spec_parse (strip s) = spec_parse s"
  by (simp add: strip_def spec_parse_drop_trailing spec_parse_dropWhile)

lemma parse_medications_custom:
  "py_lower text \<noteq> ascii ''h.pylori'' \<Longrightarrow> parse_medications text = spec_parse text"
proof -
  assume "py_lower text \<noteq> ascii ''h.pylori''"
  then have "parse_medications text = concat (map line_medications (split_on NL (strip text)))"
    by (simp add: parse_medications_def parse_lines_concat)
  also have "\<dots> = spec_parse (strip text)"
    by (simp add: spec_parse_def line_medications_spec [abs_def])
  finally show ?thesis by (simp add: spec_parse_strip)
qed

section \<open>The medication parser\<close>

lemmas text_defs = ascii_def py_lower_def lower_cp_def strip_def is_space_def NL_def PIPE_def

text \<open>
  The texts whose lower-cased form is the keyword are the eight characters of the keyword
  in any letter casing.
\<close>

lemma concat_map_single:
  "(\<And>c. c \<in> set t \<Longrightarrow> f c = [g c]) \<Longrightarrow> concat (map f t) = map g t"
  by (induction t) simp_all

lemma py_lower_h_pylori_iff:
  "py_lower t = ascii ''h.pylori'' \<longleftrightarrow> map ascii_fold t = ascii ''h.pylori''"
proof
  assume l: "py_lower t = ascii ''h.pylori''"
  have "lower_cp c = [ascii_fold c]" if "c \<in> set t" for c
  proof -
    from that have "set (lower_cp c) \<subseteq> set (py_lower t)"
      by (auto simp: py_lower_def)
    with l have sub: "set (lower_cp c) \<subseteq> set (ascii ''h.pylori'')" by simp
    have "c \<noteq> 304" "c \<noteq> 8490"
      using sub by (auto simp: lower_cp_def ascii_def)
    then show ?thesis by (simp add: lower_cp_def ascii_fold_def)
  qed
  then have "py_lower t = map ascii_fold t"
    unfolding py_lower_def by (rule concat_map_single)
  with l show "map ascii_fold t = ascii ''h.pylori''" by simp
next
  assume m: "map ascii_fold t = ascii ''h.pylori''"
  have "lower_cp c = [ascii_fold c]" if "c \<in> set t" for c
  proof -
    from that have "ascii_fold c \<in> set (map ascii_fold t)" by simp
    with m have "ascii_fold c \<in> set (ascii ''h.pylori'')" by simp
    then have "c \<noteq> 304" "c \<noteq> 8490"
      by (auto simp: ascii_fold_def ascii_def)
    then show ?thesis by (simp add: lower_cp_def ascii_fold_def)
  qed
  then have "py_lower t = map ascii_fold t"
    unfolding py_lower_def by (rule concat_map_single)
  with m show "py_lower t = ascii ''h.pylori''" by simp
qed

text \<open>
  Claim C5, as the specification states it, does not hold: the keyword is compared with
  the lower-cased text, and the text is not trimmed first. With a blank before and after
  the keyword the trimmed, lower-cased text is the keyword, yet the parser goes on to
  the lines, finds no pipe, and returns the empty list.
\<close>

theorem h_pylori_surrounding_whitespace_counterexample:
  "py_lower (strip (ascii '' h.pylori '')) = ascii ''h.pylori'' \<and>
   parse_medications (ascii '' h.pylori '') = [] \<and>
   parse_medications (ascii '' h.pylori '') \<noteq> h_pylori_medications"
  by (simp add: parse_medications_def line_medications_def h_pylori_medications_def text_defs)

text \<open>
  Claim C5, amended: for every text whose lower-cased form is exactly \<^verbatim>\<open>h.pylori\<close>
  (any letter casing, nothing before or after it), the parser returns the fixed list of
  four entries, Doxycycline 100mg, Metronidazole 500mg, Esomeprazole 40mg and Bismuth
  525mg with their fixed dosage, quantity and instructions, and looks at no line.
\<close>

theorem h_pylori_template:
  "py_lower text = ascii ''h.pylori'' \<Longrightarrow>
     parse_medications text = h_pylori_medications \<and>
     length h_pylori_medications = 4 \<and>
     map name h_pylori_medications =
       [ascii ''Doxycycline 100mg'', ascii ''Metronidazole 500mg'',
        ascii ''Esomeprazole 40mg'', ascii ''Bismuth 525mg'']"
  by (simp add: parse_medications_def h_pylori_medications_def)

text \<open>
  The amended claim C5 at the text \<^verbatim>\<open>H.Pylori\<close>.
\<close>

theorem h_pylori_template_witness:
  "py_lower (ascii ''H.Pylori'') = ascii ''h.pylori'' \<and>
   parse_medications (ascii ''H.Pylori'') = h_pylori_medications"
  using h_pylori_template [of "ascii ''H.Pylori''"]
  by (simp add: text_defs)

text \<open>
  Claim C6: for every text that is not the template keyword, the parser returns, line by
  line and in the order of the lines, one entry for each line of exactly four segments
  between pipes, with the fields name, dosage, quantity and instructions the trimmed
  segments in this order, and nothing for any other line (\<open>spec_line_entries\<close>). What a
  line gives does not depend on the lines around it. The lines are those of the text as
  it was sent: that the program trims the text before it splits it changes nothing.
\<close>

theorem parse_medications_lines:
  "py_lower text \<noteq> ascii ''h.pylori'' \<Longrightarrow>
     parse_medications text = concat (map spec_line_entries (split_on NL text))"
  using parse_medications_custom by (simp add: spec_parse_def)

text \<open>
  Claim C6 at a text of four lines: a valid line, a line without a pipe, a line of three
  segments, and a valid line with blanks around it.
\<close>

theorem parse_medications_lines_witness:
  "py_lower (ascii ''Aspirin 100mg | 100mg | 10 tablets | once daily'' @ [NL] @
             ascii ''rest well'' @ [NL] @ ascii ''A | B | C'' @ [NL] @
             ascii '' Bismuth|525mg|56| x '') \<noteq> ascii ''h.pylori'' \<and>
   parse_medications (ascii ''Aspirin 100mg | 100mg | 10 tablets | once daily'' @ [NL] @
             ascii ''rest well'' @ [NL] @ ascii ''A | B | C'' @ [NL] @
             ascii '' Bismuth|525mg|56| x '') =
     [\<lparr>name = ascii ''Aspirin 100mg'', dosage = ascii ''100mg'',
       quantity = ascii ''10 tablets'', instructions = ascii ''once daily''\<rparr>,
      \<lparr>name = ascii ''Bismuth'', dosage = ascii ''525mg'',
       quantity = ascii ''56'', instructions = ascii ''x''\<rparr>]"
  using parse_medications_lines [of "ascii ''Aspirin 100mg | 100mg | 10 tablets | once daily'' @ [NL] @
             ascii ''rest well'' @ [NL] @ ascii ''A | B | C'' @ [NL] @
             ascii '' Bismuth|525mg|56| x ''"]
  by (simp add: spec_line_entries_def text_defs)

section \<open>The handler of the parser\<close>

text \<open>
  What \<^verbatim>\<open>confirm_prescription\<close> does when the parser finds no entry in the text: it
  answers that the format is invalid, returns \<^verbatim>\<open>CONFIRM_PRESCRIPTION\<close>, and leaves the
  context and the store as they were.
\<close>

lemma confirm_prescription_no_entry:
  "parse_medications (message_text u) = [] \<Longrightarrow>
     confirm_prescription e u ctx d =
       \<lparr>ret = Inr (To CONFIRM_PRESCRIPTION), replies = [InvalidPrescriptionFormat],
        data = ctx, store = d\<rparr>"
  by (simp add: confirm_prescription_def returns_def)

section \<open>The dispatch and the handlers at concrete inputs\<close>

lemmas label_defs = ADD_NEW_PATIENT_def VIEW_PATIENTS_def CREATE_PRESCRIPTION_def
  VIEW_PRESCRIPTIONS_def SEARCH_PATIENT_def STATISTICS_def MAIN_MENU_def CANCEL_SELECTION_def
  CONFIRM_AND_SAVE_def CANCEL_PRESCRIPTION_def EDIT_def

lemma save_prescription_other_text:
  "message_text u \<noteq> CONFIRM_AND_SAVE \<Longrightarrow> message_text u \<noteq> EDIT \<Longrightarrow>
     save_prescription e u ctx d = cancel e u ctx d"
  by (simp add: save_prescription_def)

text \<open>
  Claim C7 at a failing input. The text of the prescription is awaited in the state
  \<^verbatim>\<open>CONFIRM_PRESCRIPTION\<close>, where \<^verbatim>\<open>run\<close> calls \<^verbatim>\<open>save_prescription\<close>: a text in
  which the parser finds no entry is answered with the message of \<^verbatim>\<open>cancel\<close> and ends
  the conversation. \<^verbatim>\<open>confirm_prescription\<close>, which would ask again and stay, is not
  called.
\<close>

theorem unparsed_text_is_cancelled:
  "parse_medications (ascii ''take two aspirin'') = [] \<and>
   dispatch example_env (text_update (ascii ''take two aspirin'')) (Some CONFIRM_PRESCRIPTION)
       (empty_user_data\<lparr>selected_patient_id := Some 1, diagnosis := Some (ascii ''Gastritis'')\<rparr>)
       example_db =
     (None,
      \<lparr>ret = Inr END, replies = [Cancelled],
       data = empty_user_data\<lparr>selected_patient_id := Some 1, diagnosis := Some (ascii ''Gastritis'')\<rparr>,
       store = example_db\<rparr>) \<and>
   confirm_prescription example_env (text_update (ascii ''take two aspirin''))
       (empty_user_data\<lparr>selected_patient_id := Some 1, diagnosis := Some (ascii ''Gastritis'')\<rparr>)
       example_db =
     \<lparr>ret = Inr (To CONFIRM_PRESCRIPTION), replies = [InvalidPrescriptionFormat],
      data = empty_user_data\<lparr>selected_patient_id := Some 1, diagnosis := Some (ascii ''Gastritis'')\<rparr>,
      store = example_db\<rparr>"
  by (simp add: dispatch_def conv_handler_def text_update_def save_prescription_def cancel_def
      confirm_prescription_def next_state_def returns_def parse_medications_def
      line_medications_def label_defs text_defs)

text \<open>
  Claim C1 at a failing input. In the state \<^verbatim>\<open>CONFIRM_PRESCRIPTION\<close> the table of
  \<^verbatim>\<open>run\<close> calls \<^verbatim>\<open>save_prescription\<close>, whose last branch cancels: a line that the
  parser reads as one medication ends the conversation with the message of
  \<^verbatim>\<open>cancel\<close>, and no parser sees it.
\<close>

theorem review_text_is_cancelled:
  "parse_medications (ascii ''Aspirin 100mg | 100mg | 10 tablets | once daily'') =
     [\<lparr>name = ascii ''Aspirin 100mg'', dosage = ascii ''100mg'',
       quantity = ascii ''10 tablets'', instructions = ascii ''once daily''\<rparr>] \<and>
   dispatch e (text_update (ascii ''Aspirin 100mg | 100mg | 10 tablets | once daily''))
       (Some CONFIRM_PRESCRIPTION) ctx d =
     (None, \<lparr>ret = Inr END, replies = [Cancelled], data = ctx, store = d\<rparr>)"
  by (simp add: dispatch_def conv_handler_def text_update_def save_prescription_def cancel_def
      next_state_def returns_def parse_medications_def line_medications_def label_defs text_defs)

text \<open>
  Claim C3 at a failing input. After the diagnosis, \<^verbatim>\<open>prescription_input\<close> moves to
  \<^verbatim>\<open>CONFIRM_PRESCRIPTION\<close> with no list of medications in the context; the choice to
  confirm and save then makes \<^verbatim>\<open>save_prescription\<close> raise \<^verbatim>\<open>KeyError\<close> for the key
  \<^verbatim>\<open>medications\<close>, which no handler catches.
\<close>

theorem confirm_without_medications_raises:
  "dispatch example_env (text_update (ascii ''Gastritis'')) (Some PRESCRIPTION_INPUT)
       (empty_user_data\<lparr>selected_patient_id := Some 1\<rparr>) example_db =
     (Some CONFIRM_PRESCRIPTION,
      \<lparr>ret = Inr (To CONFIRM_PRESCRIPTION), replies = [PrescriptionTemplate],
       data = empty_user_data\<lparr>selected_patient_id := Some 1, diagnosis := Some (ascii ''Gastritis'')\<rparr>,
       store = example_db\<rparr>) \<and>
   dispatch example_env (text_update CONFIRM_AND_SAVE) (Some CONFIRM_PRESCRIPTION)
       (empty_user_data\<lparr>selected_patient_id := Some 1, diagnosis := Some (ascii ''Gastritis'')\<rparr>)
       example_db =
     (Some CONFIRM_PRESCRIPTION,
      \<lparr>ret = Inl (KeyError (ascii ''medications'')), replies = [],
       data = empty_user_data\<lparr>selected_patient_id := Some 1, diagnosis := Some (ascii ''Gastritis'')\<rparr>,
       store = example_db\<rparr>)"
  by (simp add: dispatch_def conv_handler_def text_update_def save_prescription_def
      prescription_input_def next_state_def returns_def raises_def empty_user_data_def)

text \<open>
  Claim C4, as the specification states it, does not hold: \<^verbatim>\<open>cancel\<close> writes nothing
  to the context. After \<^verbatim>\<open>/cancel\<close> in the prescription sub-flow and the start of a
  new one, the context still holds the patient selected in the cancelled attempt.
\<close>

theorem cancel_keeps_context_counterexample:
  "run [(example_env, command_update (ascii ''cancel'')),
        (example_env, text_update CREATE_PRESCRIPTION)]
       (Some PRESCRIPTION_INPUT) (empty_user_data\<lparr>selected_patient_id := Some 7\<rparr>) example_db =
     (Some PATIENT_DIAGNOSIS, empty_user_data\<lparr>selected_patient_id := Some 7\<rparr>, example_db) \<and>
   empty_user_data\<lparr>selected_patient_id := Some 7\<rparr> \<noteq> empty_user_data"
  by (simp add: dispatch_def conv_handler_def text_update_def command_update_def cancel_def
      create_prescription_start_def regex_label_def newest_first_def patients_of_def
      example_db_def next_state_def returns_def empty_user_data_def ascii_def label_defs)

text \<open>
  Claim C4, amended: in every state of a conversation the command \<^verbatim>\<open>/cancel\<close>, and in
  the states that offer one the cancel choice, sends the message of \<^verbatim>\<open>cancel\<close>, ends
  the conversation, and leaves the context and the store as they were.
\<close>

theorem cancel_returns_to_idle:
  assumes "bot_command u = Some (ascii ''cancel'') \<or>
           bot_command u = None \<and>
             (s = PATIENT_DIAGNOSIS \<and> message_text u = CANCEL_SELECTION \<or>
              s = CONFIRM_PRESCRIPTION \<and> message_text u = CANCEL_PRESCRIPTION)"
  shows "dispatch e u (Some s) ctx d =
           (None, \<lparr>ret = Inr END, replies = [Cancelled], data = ctx, store = d\<rparr>)"
proof -
  have ne: "ascii ''cancel'' \<noteq> ascii ''start''"
    by (simp add: ascii_def)
  have sel: "CANCEL_PRESCRIPTION \<noteq> CONFIRM_AND_SAVE" "CANCEL_PRESCRIPTION \<noteq> EDIT"
    by (simp_all add: label_defs ascii_def)
  from assms show ?thesis
    using ne sel
    by (auto simp: dispatch_def conv_handler_def cancel_def patient_diagnosis_def
        save_prescription_def next_state_def returns_def)
qed

text \<open>
  The amended claim C4 at the command in the state \<^verbatim>\<open>PATIENT_AGE\<close> and at the two
  cancel choices.
\<close>

theorem cancel_returns_to_idle_witness:
  "dispatch example_env (command_update (ascii ''cancel'')) (Some PATIENT_AGE)
       (empty_user_data\<lparr>patient_name_key := Some (ascii ''Jane Doe'')\<rparr>) example_db =
     (None, \<lparr>ret = Inr END, replies = [Cancelled],
             data = empty_user_data\<lparr>patient_name_key := Some (ascii ''Jane Doe'')\<rparr>,
             store = example_db\<rparr>) \<and>
   dispatch example_env (text_update CANCEL_SELECTION) (Some PATIENT_DIAGNOSIS)
       empty_user_data example_db =
     (None, \<lparr>ret = Inr END, replies = [Cancelled], data = empty_user_data,
             store = example_db\<rparr>) \<and>
   dispatch example_env (text_update CANCEL_PRESCRIPTION) (Some CONFIRM_PRESCRIPTION)
       (empty_user_data\<lparr>diagnosis := Some (ascii ''Gastritis'')\<rparr>) example_db =
     (None, \<lparr>ret = Inr END, replies = [Cancelled],
             data = empty_user_data\<lparr>diagnosis := Some (ascii ''Gastritis'')\<rparr>,
             store = example_db\<rparr>)"
  using cancel_returns_to_idle [of "command_update (ascii ''cancel'')" PATIENT_AGE example_env
      "empty_user_data\<lparr>patient_name_key := Some (ascii ''Jane Doe'')\<rparr>" example_db]
    cancel_returns_to_idle [of "text_update CANCEL_SELECTION" PATIENT_DIAGNOSIS example_env
      empty_user_data example_db]
    cancel_returns_to_idle [of "text_update CANCEL_PRESCRIPTION" CONFIRM_PRESCRIPTION example_env
      "empty_user_data\<lparr>diagnosis := Some (ascii ''Gastritis'')\<rparr>" example_db]
  by (simp add: command_update_def text_update_def)

text \<open>
  Claim C8 at a failing input. The button of the search shows the prompt; the next text
  of the operator reaches \<^verbatim>\<open>button_handler\<close>, which knows no such label and sends
  nothing. \<^verbatim>\<open>handle_search\<close>, which \<^verbatim>\<open>run\<close> does not register, would have found the
  patient.
\<close>

theorem search_term_is_not_searched:
  "dispatch example_env (text_update SEARCH_PATIENT) None empty_user_data example_db =
     (None, \<lparr>ret = Inr NoValue, replies = [SearchPrompt], data = empty_user_data,
             store = example_db\<rparr>) \<and>
   dispatch example_env (text_update (ascii ''jane'')) None empty_user_data example_db =
     (None, \<lparr>ret = Inr NoValue, replies = [], data = empty_user_data, store = example_db\<rparr>) \<and>
   handle_search example_env (text_update (ascii ''jane'')) empty_user_data example_db =
     \<lparr>ret = Inr NoValue,
      replies = [SearchResults (ascii ''jane'') [(ascii ''Jane Doe'', 1, 40, ascii ''555-1234'')]],
      data = empty_user_data, store = example_db\<rparr>"
  by (simp add: dispatch_def conv_handler_def text_update_def button_handler_def
      search_patient_def handle_search_def regex_label_def example_db_def returns_def
      ascii_fold_def label_defs text_defs)

text \<open>
  Claim C10 at a failing input. A prescription saved on 3 November 2026 is confirmed
  with the date \<^verbatim>\<open>03-11-2026\<close>; the list of recent prescriptions prints the stored
  column, \<^verbatim>\<open>2026-11-03\<close>.
\<close>

theorem prescription_list_shows_iso_date:
  "save_prescription example_env (text_update CONFIRM_AND_SAVE)
       (empty_user_data\<lparr>selected_patient_id := Some 1, diagnosis := Some (ascii ''Gastritis''),
          medications := Some h_pylori_medications\<rparr>) example_db =
     \<lparr>ret = Inr END, replies = [PrescriptionSaved 1 (ascii ''03-11-2026'')],
      data = empty_user_data\<lparr>selected_patient_id := Some 1,
          diagnosis := Some (ascii ''Gastritis''), medications := Some h_pylori_medications\<rparr>,
      store = example_db\<lparr>prescriptions :=
          [\<lparr>rx_id = 1, rx_patient_id = 1, rx_diagnosis = ascii ''Gastritis'',
            rx_admission_date = ascii ''2026-11-03'', rx_discharge_date = ascii ''2026-11-03'',
            rx_medications = h_pylori_medications,
            rx_created_at = current_timestamp example_env\<rparr>]\<rparr>\<rparr> \<and>
   replies (view_prescriptions example_env (text_update VIEW_PRESCRIPTIONS) empty_user_data
       (example_db\<lparr>prescriptions :=
          [\<lparr>rx_id = 1, rx_patient_id = 1, rx_diagnosis = ascii ''Gastritis'',
            rx_admission_date = ascii ''2026-11-03'', rx_discharge_date = ascii ''2026-11-03'',
            rx_medications = h_pylori_medications,
            rx_created_at = current_timestamp example_env\<rparr>]\<rparr>)) =
     [PrescriptionList
        [(1, ascii ''Jane Doe'', ascii ''Gastritis'', ascii ''2026-11-03'', 4)]]"
  by (simp add: save_prescription_def view_prescriptions_def text_update_def example_db_def
      example_env_def returns_def sqlite_int_def lastrowid_def date_of_def isoformat_def
      strftime_dmy_def zfill_def str_nat.simps prescriptions_of_def newest_first_def
      h_pylori_medications_def ascii_def)

section \<open>What the handlers write\<close>

lemmas handler_defs = start_def add_patient_start_def patient_name_def patient_age_def
  patient_phone_def create_prescription_start_def cancel_def patient_diagnosis_def
  prescription_input_def confirm_prescription_def save_prescription_def view_patients_def
  view_prescriptions_def search_patient_def handle_search_def statistics_def
  button_handler_def

lemma call_medications:
  "medications (data (call h e u ctx d)) = medications ctx \<or>
   (h = ConfirmPrescription \<and> parse_medications (message_text u) \<noteq> [] \<and>
    medications (data (call h e u ctx d)) = Some (parse_medications (message_text u)))"
  by (cases h)
    (simp_all add: handler_defs returns_def raises_def Let_def
      split: option.splits list.splits)

lemma call_prescriptions:
  "prescriptions (store (call h e u ctx d)) = prescriptions d \<or>
   (\<exists>ms row. medications ctx = Some ms \<and> rx_medications row = ms \<and>
      prescriptions (store (call h e u ctx d)) = prescriptions d @ [row])"
  by (cases h)
    (simp_all add: handler_defs returns_def raises_def Let_def
      split: option.splits list.splits)

lemma call_medications_nonempty:
  "medications_nonempty ctx \<Longrightarrow> medications_nonempty (data (call h e u ctx d))"
  using call_medications [of h e u ctx d] by (auto simp: medications_nonempty_def)

lemma calls_invariant:
  "medications_nonempty ctx0 \<Longrightarrow> calls cs ctx0 d0 = (ctx, d) \<Longrightarrow>
     medications_nonempty ctx \<and>
     (\<exists>new. prescriptions d = prescriptions d0 @ new \<and> rows_nonempty new)"
proof (induction cs arbitrary: ctx0 d0)
  case Nil
  then show ?case by (simp add: rows_nonempty_def)
next
  case (Cons c cs)
  obtain h e u where c: "c = (h, e, u)" by (cases c) auto
  let ?r = "call h e u ctx0 d0"
  have inv: "medications_nonempty (data ?r)"
    using Cons.prems(1) by (rule call_medications_nonempty)
  have rest: "calls cs (data ?r) (store ?r) = (ctx, d)"
    using Cons.prems(2) c by (simp add: Let_def)
  from Cons.IH [OF inv rest] obtain new where
    ctx: "medications_nonempty ctx" and
    new: "prescriptions d = prescriptions (store ?r) @ new" "rows_nonempty new"
    by auto
  from call_prescriptions [of h e u ctx0 d0] show ?case
  proof
    assume "prescriptions (store ?r) = prescriptions d0"
    with ctx new show ?thesis by auto
  next
    assume "\<exists>ms row. medications ctx0 = Some ms \<and> rx_medications row = ms \<and>
      prescriptions (store ?r) = prescriptions d0 @ [row]"
    then obtain ms row where ms: "medications ctx0 = Some ms" "rx_medications row = ms"
      "prescriptions (store ?r) = prescriptions d0 @ [row]" by auto
    from ms(1) Cons.prems(1) have "ms \<noteq> []" by (auto simp: medications_nonempty_def)
    with ms new have "prescriptions d = prescriptions d0 @ (row # new)" "rows_nonempty (row # new)"
      by (simp_all add: rows_nonempty_def)
    with ctx show ?thesis by blast
  qed
qed

lemma dispatch_is_call:
  "\<exists>h. data (snd (dispatch e u st ctx d)) = data (call h e u ctx d) \<and>
       store (snd (dispatch e u st ctx d)) = store (call h e u ctx d)"
proof -
  have "snd (dispatch e u st ctx d) = call Start e u ctx d \<or>
        snd (dispatch e u st ctx d) = call AddPatientStart e u ctx d \<or>
        snd (dispatch e u st ctx d) = call CreatePrescriptionStart e u ctx d \<or>
        snd (dispatch e u st ctx d) = call Cancel e u ctx d \<or>
        snd (dispatch e u st ctx d) = call ButtonHandler e u ctx d \<or>
        (\<exists>s. snd (dispatch e u st ctx d) = state_handler s e u ctx d) \<or>
        snd (dispatch e u st ctx d) = ignored ctx d"
    by (auto simp: dispatch_def conv_handler_def split: option.splits)
  moreover have "\<exists>h. state_handler s e u ctx d = call h e u ctx d" for s
    by (cases s) (auto intro: exI [of _ PatientName] exI [of _ PatientAge]
        exI [of _ PatientPhone] exI [of _ PatientDiagnosis] exI [of _ PrescriptionInput]
        exI [of _ SavePrescription])
  moreover have "data (ignored ctx d) = data (call Start e u ctx d)"
      "store (ignored ctx d) = store (call Start e u ctx d)"
    by (simp_all add: ignored_def start_def returns_def)
  ultimately show ?thesis by metis
qed

lemma run_is_calls:
  "\<exists>cs. snd (run turns st ctx d) = calls cs ctx d"
proof (induction turns arbitrary: st ctx d)
  case Nil
  have "snd (run [] st ctx d) = calls [] ctx d" by simp
  then show ?case by blast
next
  case (Cons t turns)
  obtain e u where t: "t = (e, u)" by (cases t) auto
  obtain st1 r where r: "dispatch e u st ctx d = (st1, r)" by (cases "dispatch e u st ctx d") auto
  from dispatch_is_call [of e u st ctx d] r obtain h where
    h: "data r = data (call h e u ctx d)" "store r = store (call h e u ctx d)" by auto
  from Cons.IH [of st1 "data r" "store r"] obtain cs where
    "snd (run turns st1 (data r) (store r)) = calls cs (data r) (store r)" by blast
  with t r h have "snd (run (t # turns) st ctx d) = calls ((h, e, u) # cs) ctx d"
    by (simp add: Let_def)
  then show ?case by blast
qed

text \<open>
  Claim C2: after any sequence of calls of handlers that starts with an empty context,
  every row that the sequence has added to the prescriptions holds a list of medications
  with an entry, and a further call adds a row only when the list in the context has an
  entry; the row then holds this list. By \<open>run_is_calls\<close> the sequences of updates that
  \<^verbatim>\<open>run\<close> dispatches are among these sequences.
\<close>

theorem prescription_rows_have_medications:
  assumes "calls cs empty_user_data d0 = (ctx, d)"
  shows "(\<exists>new. prescriptions d = prescriptions d0 @ new \<and> rows_nonempty new) \<and>
         (prescriptions (store (call h e u ctx d)) \<noteq> prescriptions d \<longrightarrow>
            (\<exists>ms row. ms \<noteq> [] \<and> medications ctx = Some ms \<and> rx_medications row = ms \<and>
               prescriptions (store (call h e u ctx d)) = prescriptions d @ [row]))"
proof -
  have start: "medications_nonempty empty_user_data"
    by (simp add: medications_nonempty_def empty_user_data_def)
  from calls_invariant [OF start assms] have
    inv: "medications_nonempty ctx" and
    rows: "\<exists>new. prescriptions d = prescriptions d0 @ new \<and> rows_nonempty new"
    by auto
  have "\<exists>ms row. ms \<noteq> [] \<and> medications ctx = Some ms \<and> rx_medications row = ms \<and>
          prescriptions (store (call h e u ctx d)) = prescriptions d @ [row]"
    if "prescriptions (store (call h e u ctx d)) \<noteq> prescriptions d"
  proof -
    from call_prescriptions [of h e u ctx d] that obtain ms row where
      ms: "medications ctx = Some ms" "rx_medications row = ms"
        "prescriptions (store (call h e u ctx d)) = prescriptions d @ [row]"
      by auto
    from ms(1) inv have "ms \<noteq> []" by (auto simp: medications_nonempty_def)
    with ms show ?thesis by blast
  qed
  with rows show ?thesis by blast
qed

text \<open>
  Claim C2 at the selection of a patient, a diagnosis and the template, followed by the
  choice to confirm and save.
\<close>

theorem prescription_rows_have_medications_witness:
  "calls [(PatientDiagnosis, example_env, text_update (ascii ''Jane Doe (Age: 40) - ID: 1'')),
          (PrescriptionInput, example_env, text_update (ascii ''Gastritis'')),
          (ConfirmPrescription, example_env, text_update (ascii ''h.pylori''))]
       empty_user_data example_db =
     (empty_user_data\<lparr>selected_patient_id := Some 1, diagnosis := Some (ascii ''Gastritis''),
        medications := Some h_pylori_medications\<rparr>, example_db) \<and>
   prescriptions (store (call SavePrescription example_env (text_update CONFIRM_AND_SAVE)
       (empty_user_data\<lparr>selected_patient_id := Some 1, diagnosis := Some (ascii ''Gastritis''),
          medications := Some h_pylori_medications\<rparr>) example_db)) \<noteq> prescriptions example_db \<and>
   (\<exists>ms row. ms \<noteq> [] \<and>
      medications (empty_user_data\<lparr>selected_patient_id := Some 1,
          diagnosis := Some (ascii ''Gastritis''),
          medications := Some h_pylori_medications\<rparr>) = Some ms \<and>
      rx_medications row = ms \<and>
      prescriptions (store (call SavePrescription example_env (text_update CONFIRM_AND_SAVE)
        (empty_user_data\<lparr>selected_patient_id := Some 1, diagnosis := Some (ascii ''Gastritis''),
          medications := Some h_pylori_medications\<rparr>) example_db)) =
        prescriptions example_db @ [row])"
proof -
  have trace:
    "calls [(PatientDiagnosis, example_env, text_update (ascii ''Jane Doe (Age: 40) - ID: 1'')),
          (PrescriptionInput, example_env, text_update (ascii ''Gastritis'')),
          (ConfirmPrescription, example_env, text_update (ascii ''h.pylori''))]
       empty_user_data example_db =
     (empty_user_data\<lparr>selected_patient_id := Some 1, diagnosis := Some (ascii ''Gastritis''),
        medications := Some h_pylori_medications\<rparr>, example_db)"
    by (simp add: patient_diagnosis_def prescription_input_def confirm_prescription_def
        text_update_def returns_def parse_medications_def py_int_def unsigned_value_def
        decimal_value_def int_space_def sqlite_int_def example_db_def empty_user_data_def
        h_pylori_medications_def Let_def label_defs text_defs)
  have inserted:
    "prescriptions (store (call SavePrescription example_env (text_update CONFIRM_AND_SAVE)
       (empty_user_data\<lparr>selected_patient_id := Some 1, diagnosis := Some (ascii ''Gastritis''),
          medications := Some h_pylori_medications\<rparr>) example_db)) \<noteq> prescriptions example_db"
    by (simp add: save_prescription_def text_update_def returns_def sqlite_int_def
        example_db_def Let_def)
  from prescription_rows_have_medications [OF trace, of SavePrescription example_env
      "text_update CONFIRM_AND_SAVE"] inserted trace
  show ?thesis by blast
qed

section \<open>The selection of a patient\<close>

lemma contains_iff: "contains sep s \<longleftrightarrow> (\<exists>pre post. s = pre @ sep @ post)"
proof (induction s)
  case Nil
  then show ?case by auto
next
  case (Cons x xs)
  show ?case
  proof
    assume "contains sep (x # xs)"
    then consider "take (length sep) (x # xs) = sep" | "contains sep xs" by auto
    then show "\<exists>pre post. x # xs = pre @ sep @ post"
    proof cases
      case 1
      then have "x # xs = [] @ sep @ drop (length sep) (x # xs)"
        by (metis append_Nil append_take_drop_id)
      then show ?thesis by blast
    next
      case 2
      with Cons obtain pre post where "xs = pre @ sep @ post" by auto
      then have "x # xs = (x # pre) @ sep @ post" by simp
      then show ?thesis by blast
    qed
  next
    assume "\<exists>pre post. x # xs = pre @ sep @ post"
    then obtain pre post where eq: "x # xs = pre @ sep @ post" by auto
    show "contains sep (x # xs)"
    proof (cases pre)
      case Nil
      with eq have "take (length sep) (x # xs) = sep" by simp
      then show ?thesis by simp
    next
      case (Cons y ys)
      with eq have "xs = ys @ sep @ post" by simp
      with Cons.IH have "contains sep xs" by blast
      then show ?thesis by simp
    qed
  qed
qed

lemma split_sep_not_Nil: "split_sep sep s \<noteq> []"
  by (induction sep s rule: split_sep.induct) (auto split: list.splits)

lemma split_sep_no_occurrence: "\<not> contains sep s \<Longrightarrow> split_sep sep s = [s]"
  by (induction s) auto

lemma contains_hd: "contains (m # ms) s \<Longrightarrow> m \<in> set s"
  by (induction s) auto

lemma marker_not_straddling:
  assumes "take 4 (x # pre @ [73, 68, 58, 32] @ rest) = [73, 68, 58, 32::nat]"
  shows "take 4 (x # pre) = [73, 68, 58, 32]"
proof (cases pre)
  case Nil
  with assms show ?thesis by simp
next
  case (Cons a as)
  note p1 = this
  show ?thesis
  proof (cases as)
    case Nil
    with assms p1 show ?thesis by simp
  next
    case (Cons b bs)
    note p2 = this
    show ?thesis
    proof (cases bs)
      case Nil
      with assms p1 p2 show ?thesis by simp
    next
      case (Cons c cs)
      with assms p1 p2 show ?thesis by simp
    qed
  qed
qed

lemma ID_MARKER_code: "ID_MARKER = [73, 68, 58, 32]"
  by (simp add: ID_MARKER_def ascii_def)

lemma split_sep_first_marker:
  "\<not> contains ID_MARKER pre \<Longrightarrow>
     split_sep ID_MARKER (pre @ ID_MARKER @ rest) = pre # split_sep ID_MARKER rest"
proof (induction pre)
  case Nil
  show ?case by (simp add: ID_MARKER_code)
next
  case (Cons x pre)
  have len: "length ID_MARKER = 4" by (simp add: ID_MARKER_code)
  from Cons.prems have a: "take (length ID_MARKER) (x # pre) \<noteq> ID_MARKER"
    and no: "\<not> contains ID_MARKER pre"
    by simp_all
  have "take 4 (x # pre) \<noteq> [73, 68, 58, 32]"
    using a [unfolded len] unfolding ID_MARKER_code .
  with marker_not_straddling [of x pre rest]
  have "take 4 (x # pre @ [73, 68, 58, 32] @ rest) \<noteq> [73, 68, 58, 32]" by blast
  then have cond: "take (length ID_MARKER) (x # pre @ ID_MARKER @ rest) \<noteq> ID_MARKER"
    by (simp only: len, simp only: ID_MARKER_code)
  have "split_sep ID_MARKER (pre @ ID_MARKER @ rest) = pre # split_sep ID_MARKER rest"
    using Cons.IH no by simp
  with cond show ?case by simp
qed

text \<open>
  \<^verbatim>\<open>int\<close> at the edges of its domain: U+001F after the digit is no whitespace, a digit of
  another script is read, and 4301 digits are one too many.
\<close>

lemma py_int_examples:
  "py_int [55, 31] = None"
  "py_int [55, 160] = Some 7"
  "py_int [1639] = Some 7"
  "py_int (ascii '' -1_0 '') = Some (- 10)"
  "py_int (ascii ''1__0'') = None"
  by (simp_all add: py_int_def unsigned_value_def decimal_value_def decimal_zeros_def
      int_space_def is_space_def ascii_def)

lemma read_digits_ones:
  "read_digits (replicate (Suc n) 49) = Some (replicate (Suc n) 1)"
  by (induction n) (simp_all add: decimal_value_def)

lemma py_int_digit_limit:
  "py_int (replicate 4300 49) \<noteq> None" "py_int (replicate 4301 49) = None"
proof -
  have sp: "\<not> int_space 49" by (simp add: int_space_def is_space_def)
  have trim: "rev (dropWhile int_space (rev (dropWhile int_space (replicate (Suc n) 49)))) =
      replicate (Suc n) 49" for n
  proof -
    have "dropWhile int_space (replicate (Suc n) 49) = replicate (Suc n) 49"
      using sp by simp
    moreover have "dropWhile int_space (rev (replicate (Suc n) 49)) = replicate (Suc n) 49"
      using sp by (simp del: replicate_Suc add: dropWhile_eq_self_iff)
    ultimately show ?thesis by (simp del: replicate_Suc)
  qed
  have val: "py_int (replicate (Suc n) 49) =
      (if 4300 < Suc n then None
       else Some (int (foldl (\<lambda>a d. 10 * a + d) 0 (replicate (Suc n) 1))))" for n
    unfolding py_int_def trim
    using read_digits_ones [of n] by (simp add: unsigned_value_def)
  have "4300 = Suc 4299" "4301 = Suc 4300" by simp_all
  then show "py_int (replicate 4300 49) \<noteq> None" "py_int (replicate 4301 49) = None"
    using val [of 4299] val [of 4300] by simp_all
qed

lemma read_digits_chars:
  "read_digits s = Some ds \<Longrightarrow> c \<in> set s \<Longrightarrow> decimal_value c \<noteq> None \<or> c = 95"
proof (induction s arbitrary: ds rule: read_digits.induct)
  case 1
  then show ?case by simp
next
  case (2 x xs)
  from "2.prems"(1) obtain v where v: "decimal_value x = Some v"
    by (auto split: option.splits)
  show ?case
  proof (cases xs)
    case Nil
    with "2.prems" v show ?thesis by auto
  next
    case (Cons y ys)
    show ?thesis
    proof (cases "y = 95")
      case True
      with "2.prems"(1) v Cons obtain r where r: "read_digits ys = Some r" by auto
      from "2.IH"(1) [OF v Cons True r] "2.prems"(2) v Cons True show ?thesis by auto
    next
      case False
      with "2.prems"(1) v Cons obtain r where r: "read_digits (y # ys) = Some r" by auto
      from "2.IH"(2) [OF v Cons False r] "2.prems"(2) v Cons show ?thesis by auto
    qed
  qed
qed

lemma unsigned_value_chars:
  "unsigned_value s = Some n \<Longrightarrow> c \<in> set s \<Longrightarrow> decimal_value c \<noteq> None \<or> c = 95"
  by (auto simp: unsigned_value_def split: option.splits if_splits dest: read_digits_chars)

lemma set_trimmed:
  "c \<in> set s \<Longrightarrow> P c \<or> c \<in> set (rev (dropWhile P (rev (dropWhile P s))))"
proof -
  assume c: "c \<in> set s"
  let ?t = "dropWhile P s"
  have s: "s = takeWhile P s @ ?t" by simp
  have t: "rev ?t = takeWhile P (rev ?t) @ dropWhile P (rev ?t)" by simp
  from c s have "c \<in> set (takeWhile P s) \<or> c \<in> set ?t"
    by (metis Un_iff set_append)
  moreover have "c \<in> set ?t \<Longrightarrow>
      c \<in> set (takeWhile P (rev ?t)) \<or> c \<in> set (dropWhile P (rev ?t))"
    by (metis t Un_iff set_append set_rev)
  ultimately show ?thesis
    by (auto dest: set_takeWhileD)
qed

lemma py_int_chars:
  assumes "py_int s = Some n" and "c \<in> set s"
  shows "int_space c \<or> decimal_value c \<noteq> None \<or> c = 43 \<or> c = 45 \<or> c = 95"
proof -
  let ?t = "rev (dropWhile int_space (rev (dropWhile int_space s)))"
  from set_trimmed [OF assms(2), of int_space] show ?thesis
  proof
    assume "int_space c" then show ?thesis by simp
  next
    assume c: "c \<in> set ?t"
    then obtain x xs where st: "?t = x # xs" by (cases ?t) auto
    with c have "c = x \<or> c \<in> set xs" by auto
    with assms(1) st show ?thesis
      by (auto simp: py_int_def split: if_splits dest: unsigned_value_chars)
  qed
qed

lemma py_int_no_marker: "py_int s = Some n \<Longrightarrow> \<not> contains ID_MARKER s"
proof
  assume n: "py_int s = Some n" and "contains ID_MARKER s"
  then have "73 \<in> set s" by (auto simp: ID_MARKER_code dest: contains_hd)
  from py_int_chars [OF n this] show False
    by (simp add: int_space_def is_space_def decimal_value_def decimal_zeros_def)
qed

text \<open>
  The texts with one marker: \<^verbatim>\<open>patient_diagnosis\<close> reads what follows the marker. For
  a text other than the cancel choice, when what follows the first marker reads as an
  integer, this integer is stored and the diagnosis is asked for; when the text has no
  marker, or has one marker and what follows does not read as an integer, the handler
  asks again and changes nothing.
\<close>

lemma patient_diagnosis_single_marker:
  assumes "message_text u \<noteq> CANCEL_SELECTION"
  shows "(message_text u = pre @ ID_MARKER @ rest \<and> \<not> contains ID_MARKER pre \<and>
          py_int rest = Some n \<longrightarrow>
            patient_diagnosis e u ctx d =
              \<lparr>ret = Inr (To PRESCRIPTION_INPUT), replies = [AskDiagnosis],
               data = ctx\<lparr>selected_patient_id := Some n\<rparr>, store = d\<rparr>) \<and>
         (\<not> contains ID_MARKER (message_text u) \<or>
          message_text u = pre @ ID_MARKER @ rest \<and> \<not> contains ID_MARKER pre \<and>
          \<not> contains ID_MARKER rest \<and> py_int rest = None \<longrightarrow>
            patient_diagnosis e u ctx d =
              \<lparr>ret = Inr (To PATIENT_DIAGNOSIS), replies = [SelectFromList],
               data = ctx, store = d\<rparr>)"
proof (intro conjI impI)
  assume a: "message_text u = pre @ ID_MARKER @ rest \<and> \<not> contains ID_MARKER pre \<and>
          py_int rest = Some n"
  then have "\<not> contains ID_MARKER rest" by (simp add: py_int_no_marker)
  with a have "split_sep ID_MARKER (message_text u) = [pre, rest]"
    by (simp add: split_sep_first_marker split_sep_no_occurrence)
  with a assms show "patient_diagnosis e u ctx d =
      \<lparr>ret = Inr (To PRESCRIPTION_INPUT), replies = [AskDiagnosis],
       data = ctx\<lparr>selected_patient_id := Some n\<rparr>, store = d\<rparr>"
    by (simp add: patient_diagnosis_def returns_def ID_MARKER_def)
next
  assume b: "\<not> contains ID_MARKER (message_text u) \<or>
          message_text u = pre @ ID_MARKER @ rest \<and> \<not> contains ID_MARKER pre \<and>
          \<not> contains ID_MARKER rest \<and> py_int rest = None"
  then show "patient_diagnosis e u ctx d =
      \<lparr>ret = Inr (To PATIENT_DIAGNOSIS), replies = [SelectFromList], data = ctx, store = d\<rparr>"
  proof
    assume "\<not> contains ID_MARKER (message_text u)"
    then have "split_sep ID_MARKER (message_text u) = [message_text u]"
      by (rule split_sep_no_occurrence)
    with assms show ?thesis
      by (simp add: patient_diagnosis_def returns_def ID_MARKER_def)
  next
    assume c: "message_text u = pre @ ID_MARKER @ rest \<and> \<not> contains ID_MARKER pre \<and>
          \<not> contains ID_MARKER rest \<and> py_int rest = None"
    then have "split_sep ID_MARKER (message_text u) = [pre, rest]"
      by (simp add: split_sep_first_marker split_sep_no_occurrence)
    with c assms show ?thesis
      by (simp add: patient_diagnosis_def returns_def ID_MARKER_def)
  qed
qed

text \<open>
  With several markers the handler reads the text between the first two: here the
  integer after the first marker is stored although more text follows it.
\<close>

lemma text_after_second_marker_is_not_read:
  "patient_diagnosis example_env (text_update (ascii ''ID: 7 ID: seven'')) empty_user_data
       example_db =
     \<lparr>ret = Inr (To PRESCRIPTION_INPUT), replies = [AskDiagnosis],
      data = empty_user_data\<lparr>selected_patient_id := Some 7\<rparr>, store = example_db\<rparr>"
  by (simp add: patient_diagnosis_def returns_def text_update_def CANCEL_SELECTION_def
      py_int_def unsigned_value_def decimal_value_def int_space_def text_defs)

text \<open>
  Claim C9 at a failing input. A patient whose name holds the marker gets, from
  \<^verbatim>\<open>create_prescription_start\<close>, a label with two markers, the second followed by the
  identifier 12. When the operator chooses this label, \<^verbatim>\<open>patient_diagnosis\<close> reads the
  text between the two markers, which is no integer: it asks again, stores nothing and
  stays in \<^verbatim>\<open>PATIENT_DIAGNOSIS\<close>.
\<close>

theorem label_with_marker_in_name_is_refused:
  "dispatch example_env (text_update CREATE_PRESCRIPTION) None empty_user_data marker_name_db =
     (Some PATIENT_DIAGNOSIS,
      \<lparr>ret = Inr (To PATIENT_DIAGNOSIS),
       replies = [SelectPatient [ascii ''ID: 5 (Age: 3) - ID: 12'', CANCEL_SELECTION]],
       data = empty_user_data, store = marker_name_db\<rparr>) \<and>
   contains ID_MARKER (ascii ''ID: 5 (Age: 3) - ID: 12'') \<and>
   py_int (ascii ''12'') = Some 12 \<and>
   dispatch example_env (text_update (ascii ''ID: 5 (Age: 3) - ID: 12''))
       (Some PATIENT_DIAGNOSIS) empty_user_data marker_name_db =
     (Some PATIENT_DIAGNOSIS,
      \<lparr>ret = Inr (To PATIENT_DIAGNOSIS), replies = [SelectFromList],
       data = empty_user_data, store = marker_name_db\<rparr>)"
  by (simp add: dispatch_def conv_handler_def create_prescription_start_def
      patient_diagnosis_def patient_label_def str_int_def str_nat.simps regex_label_def
      newest_first_def patients_of_def marker_name_db_def next_state_def returns_def
      text_update_def ID_MARKER_def py_int_def unsigned_value_def decimal_value_def
      decimal_zeros_def int_space_def label_defs text_defs)

end
